theory Spec2Isabelle
  imports Main
begin

section \<open>HealthBridge AI: the message-processing pipeline\<close>

text \<open>
  A shallow embedding of \<^verbatim>\<open>utils/translation.py\<close>, \<^verbatim>\<open>utils/whatsapp.py\<close> and
  \<^verbatim>\<open>agents/coordinator.py\<close>. The external libraries (the translator, the LLM chain, the
  Twilio client) are parameters: each call either returns a value or raises, and both
  outcomes are values of a datatype. Python strings are \<^typ>\<open>string\<close>; the string
  primitives below treat the ASCII range as Python does and leave every other byte
  unchanged. The database session is an in-memory state whose writes succeed; server
  time stamps are left out.
\<close>

subsection \<open>Python values, strings and dictionaries\<close>

datatype pyobj = PStr string | PNone | PInt int | PBool bool

datatype py_error = KeyError string

text \<open>\<^verbatim>\<open>isinstance(x, str)\<close>\<close>

fun isinstance_str :: "pyobj \<Rightarrow> bool" where
  "isinstance_str (PStr s) = True"
| "isinstance_str x = False"

type_synonym dict = "string \<rightharpoonup> string"

text \<open>\<^verbatim>\<open>d.get(k, default)\<close>\<close>

definition dict_get :: "dict \<Rightarrow> string \<Rightarrow> string \<Rightarrow> string" where
  "dict_get d k dflt = (case d k of None \<Rightarrow> dflt | Some v \<Rightarrow> v)"

text \<open>The truth value of \<^verbatim>\<open>d.get(k)\<close>: a missing key gives \<^verbatim>\<open>None\<close>, and an empty
  string is false as well.\<close>

definition truthy_get :: "dict \<Rightarrow> string \<Rightarrow> bool" where
  "truthy_get d k = (case d k of None \<Rightarrow> False | Some v \<Rightarrow> v \<noteq> [])"

text \<open>\<^verbatim>\<open>d[k]\<close> raises \<^verbatim>\<open>KeyError\<close> on a missing key.\<close>

definition subscript :: "dict \<Rightarrow> string \<Rightarrow> py_error + string" where
  "subscript d k = (case d k of None \<Rightarrow> Inl (KeyError k) | Some v \<Rightarrow> Inr v)"

definition lower_char :: "char \<Rightarrow> char" where
  "lower_char c =
     (let n = (of_char c :: nat) in if 65 \<le> n \<and> n \<le> 90 then char_of (n + 32) else c)"

definition lower :: "string \<Rightarrow> string" where
  "lower s = map lower_char s"

definition is_space :: "char \<Rightarrow> bool" where
  "is_space c = (let n = (of_char c :: nat) in (9 \<le> n \<and> n \<le> 13) \<or> (28 \<le> n \<and> n \<le> 32))"

definition strip :: "string \<Rightarrow> string" where
  "strip s = rev (dropWhile is_space (rev (dropWhile is_space s)))"

fun startswith :: "string \<Rightarrow> string \<Rightarrow> bool" where
  "startswith s [] = True"
| "startswith [] (p # ps) = False"
| "startswith (c # cs) (p # ps) = (c = p \<and> startswith cs ps)"

text \<open>\<^verbatim>\<open>sub in s\<close>\<close>

fun contains :: "string \<Rightarrow> string \<Rightarrow> bool" where
  "contains sub [] = (sub = [])"
| "contains sub (c # cs) = (startswith (c # cs) sub \<or> contains sub cs)"

subsection \<open>utils/translation.py\<close>

text \<open>What \<^verbatim>\<open>GoogleTranslator(source, target).translate(text)\<close> does: it returns a
  string or \<^verbatim>\<open>None\<close>, or it raises; the raised exception carries the text that
  \<^verbatim>\<open>str(e)\<close> gives.\<close>

datatype translator_outcome =
    Translated "string option"
  | RaisesTranslationNotFound string
  | RaisesException string

type_synonym translator = "string \<Rightarrow> string \<Rightarrow> string \<Rightarrow> translator_outcome"

definition translate_text :: "translator \<Rightarrow> pyobj \<Rightarrow> string \<Rightarrow> string \<Rightarrow> dict" where
  "translate_text tr text dest_lang source_lang =
     (case text of
        PStr s \<Rightarrow>
          if s = [] then [''error'' \<mapsto> ''Invalid input text for translation.'']
          else
            (case tr source_lang dest_lang s of
               Translated (Some translated_text) \<Rightarrow>
                 if translated_text \<noteq> [] then
                   [''translated_text'' \<mapsto> translated_text,
                    ''source_language'' \<mapsto>
                       (if source_lang \<noteq> ''auto'' then source_lang else ''auto detected''),
                    ''dest_language'' \<mapsto> dest_lang]
                 else [''error'' \<mapsto> ''Translation returned an empty result.'']
             | Translated None \<Rightarrow> [''error'' \<mapsto> ''Translation returned an empty result.'']
             | RaisesTranslationNotFound e \<Rightarrow>
                 [''error'' \<mapsto>
                    ''Could not translate the text. It might be too short or in an unsupported language. Details: '' @ e]
             | RaisesException e \<Rightarrow> [''error'' \<mapsto> e])
      | _ \<Rightarrow> [''error'' \<mapsto> ''Invalid input text for translation.''])"

subsection \<open>utils/whatsapp.py\<close>

text \<open>What \<^verbatim>\<open>client.messages.create(from_, body, to)\<close> does: it returns a message
  with a SID, or it raises.\<close>

datatype twilio_outcome = Created string | CreateRaises string

type_synonym twilio_client = "string \<Rightarrow> string \<Rightarrow> string \<Rightarrow> twilio_outcome"

text \<open>\<^verbatim>\<open>client\<close> is \<^verbatim>\<open>None\<close> when the credentials are missing or the client could
  not be built; \<^verbatim>\<open>whatsapp_number\<close> is \<^verbatim>\<open>TWILIO_WHATSAPP_NUMBER\<close>.\<close>

definition send_whatsapp_message ::
  "twilio_client option \<Rightarrow> string \<Rightarrow> string \<Rightarrow> string \<Rightarrow> string" where
  "send_whatsapp_message client whatsapp_number to_number message_body =
     (case client of
        None \<Rightarrow> ''Twilio client is not initialized. Cannot send message.''
      | Some c \<Rightarrow>
          (let to_number' =
                 (if \<not> startswith to_number ''whatsapp:'' then ''whatsapp:'' @ to_number
                  else to_number)
           in case c whatsapp_number message_body to_number' of
                Created sid \<Rightarrow> sid
              | CreateRaises e \<Rightarrow> ''Error: '' @ e))"

subsection \<open>backend/models/models.py: the rows the pipeline reads and writes\<close>

record patient =
  patient_id :: nat
  patient_phone_number :: string
  patient_name :: "string option"
  patient_language :: "string option"

record message =
  message_id :: nat
  message_patient_id :: nat
  message_session_id :: string
  message_sender :: string
  message_content :: string
  message_translated_content :: "string option"
  message_language :: "string option"

text \<open>The calls the coordinator makes on its collaborators, in the order it makes them.\<close>

datatype event =
    Detect string
  | Translate string string
  | ResolvePatient string
  | LogAppend message
  | Classify string
  | Send string string string

text \<open>The database session: both tables in insertion order, the next primary keys, and
  the history of calls.\<close>

record world =
  patients :: "patient list"
  messages :: "message list"
  next_patient_id :: nat
  next_message_id :: nat
  trace :: "event list"

definition emit :: "event \<Rightarrow> world \<Rightarrow> world" where
  "emit e w = w\<lparr>trace := trace w @ [e]\<rparr>"

subsection \<open>agents/coordinator.py\<close>

text \<open>\<^verbatim>\<open>self.llm_chain.run(message=...)\<close> returns an object or raises.\<close>

datatype llm_outcome = LlmReturns pyobj | LlmRaises string

type_synonym llm_chain = "string \<Rightarrow> llm_outcome"

text \<open>Modelled from the spec: \<^verbatim>\<open>detect_language\<close>, which \<^verbatim>\<open>coordinator.py\<close>
  imports from \<^verbatim>\<open>utils.translation\<close> and which that module no longer defines. It is
  a function from the text to a result dictionary,
  \<^verbatim>\<open>detect(text) -> {language, error?}\<close>, and a parameter of the pipeline.\<close>

type_synonym detector = "string \<Rightarrow> dict"

text \<open>The collaborators of one \<^verbatim>\<open>CoordinatorAgent\<close>. \<^verbatim>\<open>llm_chain\<close> is \<^verbatim>\<open>None\<close> when the
  API key is not configured.\<close>

record env =
  detect_language :: detector
  translator :: translator
  llm_chain :: "llm_chain option"
  client :: "twilio_client option"
  whatsapp_number :: string

text \<open>\<^verbatim>\<open>self.db.query(models.Patient).filter(phone_number == ...).first()\<close>\<close>

fun find_patient :: "patient list \<Rightarrow> string \<Rightarrow> patient option" where
  "find_patient [] phone = None"
| "find_patient (p # ps) phone =
     (if patient_phone_number p = phone then Some p else find_patient ps phone)"

text \<open>Writing \<^verbatim>\<open>patient.language = language\<close> on the row that the query returned.\<close>

fun set_language :: "patient list \<Rightarrow> string \<Rightarrow> string \<Rightarrow> patient list" where
  "set_language [] phone lang = []"
| "set_language (p # ps) phone lang =
     (if patient_phone_number p = phone then p\<lparr>patient_language := Some lang\<rparr> # ps
      else p # set_language ps phone lang)"

definition get_or_create_patient :: "world \<Rightarrow> string \<Rightarrow> string \<Rightarrow> patient \<times> world" where
  "get_or_create_patient w phone_number language =
     (case find_patient (patients w) phone_number of
        None \<Rightarrow>
          (let p = \<lparr>patient_id = next_patient_id w, patient_phone_number = phone_number,
                    patient_name = None, patient_language = Some language\<rparr>
           in (p, w\<lparr>patients := patients w @ [p],
                    next_patient_id := Suc (next_patient_id w)\<rparr>))
      | Some p \<Rightarrow>
          if patient_language p \<noteq> Some language then
            (p\<lparr>patient_language := Some language\<rparr>,
             w\<lparr>patients := set_language (patients w) phone_number language\<rparr>)
          else (p, w))"

definition classify_intent :: "llm_chain option \<Rightarrow> string \<Rightarrow> string" where
  "classify_intent chain msg =
     (case chain of
        None \<Rightarrow>
          if contains ''book'' (lower msg) \<or> contains ''appointment'' (lower msg)
            then ''book_appointment''
          else if contains ''hello'' (lower msg) \<or> contains ''habari'' (lower msg)
            then ''greeting''
          else ''unclear''
      | Some run \<Rightarrow>
          (case run msg of
             LlmReturns (PStr response) \<Rightarrow> lower (strip response)
           | LlmReturns _ \<Rightarrow> ''unclear''
           | LlmRaises e \<Rightarrow> ''unclear''))"

definition log_message ::
  "world \<Rightarrow> nat \<Rightarrow> string \<Rightarrow> string \<Rightarrow> string \<Rightarrow> string option \<Rightarrow> string option \<Rightarrow> world" where
  "log_message w pid session_id sender content translated_content lang =
     (let msg = \<lparr>message_id = next_message_id w, message_patient_id = pid,
                  message_session_id = session_id, message_sender = sender,
                  message_content = content,
                  message_translated_content = translated_content,
                  message_language = lang\<rparr>
      in w\<lparr>messages := messages w @ [msg], next_message_id := Suc (next_message_id w),
            trace := trace w @ [LogAppend msg]\<rparr>)"

record turn_result =
  status :: string
  intent :: string
  response :: string

text \<open>Step 1 of \<^verbatim>\<open>process_message\<close> (lines 128 to 137): the detected language and the
  text handed to the classifier.\<close>

definition source_lang_of :: "env \<Rightarrow> string \<Rightarrow> string" where
  "source_lang_of E incoming_msg = dict_get (detect_language E incoming_msg) ''language'' ''en''"

definition translates_inbound :: "env \<Rightarrow> string \<Rightarrow> bool" where
  "translates_inbound E incoming_msg =
     (source_lang_of E incoming_msg \<noteq> ''en''
      \<and> \<not> truthy_get (detect_language E incoming_msg) ''error'')"

definition message_for_processing :: "env \<Rightarrow> string \<Rightarrow> py_error + string" where
  "message_for_processing E incoming_msg =
     (if translates_inbound E incoming_msg then
        (let translation = translate_text (translator E) (PStr incoming_msg) ''en'' ''auto''
         in if \<not> truthy_get translation ''error'' then subscript translation ''translated_text''
            else Inr incoming_msg)
      else Inr incoming_msg)"

text \<open>Step 5 (lines 155 to 162): the English reply for an intent.\<close>

definition response_text_en :: "string \<Rightarrow> string" where
  "response_text_en i =
     (if i = ''greeting'' then
        ''Hello! Welcome to HealthBridge AI. How can I help you today? You can ask to book an appointment, or ask a health-related question.''
      else if i = ''book_appointment'' then
        ''I can help with that. To book an appointment, I need to know the reason for your visit and your preferred date and time.''
      else if i = ''unclear'' then
        ''I'm sorry, I didn't understand that. Could you please rephrase? You can ask to book an appointment or ask a health question.''
      else ''Intent identified: '' @ i @ ''. The '' @ [CHR 0x27] @ i @ [CHR 0x27]
             @ '' agent will assist you shortly.'')"

text \<open>Step 6 (lines 164 to 169): the reply in the patient's language.\<close>

definition final_response :: "env \<Rightarrow> string \<Rightarrow> string \<Rightarrow> py_error + string" where
  "final_response E source_lang text_en =
     (if source_lang \<noteq> ''en'' then
        (let translation_back = translate_text (translator E) (PStr text_en) source_lang ''auto''
         in if \<not> truthy_get translation_back ''error''
            then subscript translation_back ''translated_text''
            else Inr text_en)
      else Inr text_en)"

text \<open>The whole turn. An exception leaves the method at the point where it is raised;
  the database keeps what was committed before.\<close>

definition process_message ::
  "env \<Rightarrow> world \<Rightarrow> string \<Rightarrow> string \<Rightarrow> (py_error + turn_result) \<times> world" where
  "process_message E w incoming_msg patient_phone =
     (let w1 = emit (Detect incoming_msg) w;
          source_lang = source_lang_of E incoming_msg;
          w2 = (if translates_inbound E incoming_msg
                then emit (Translate incoming_msg ''en'') w1 else w1)
      in case message_for_processing E incoming_msg of
           Inl err \<Rightarrow> (Inl err, w2)
         | Inr text \<Rightarrow>
             (let (patient, w3) =
                    get_or_create_patient (emit (ResolvePatient patient_phone) w2)
                      patient_phone source_lang;
                  w4 = log_message w3 (patient_id patient) patient_phone ''patient''
                         incoming_msg
                         (if source_lang \<noteq> ''en'' then Some text else None)
                         (Some source_lang);
                  w5 = emit (Classify text) w4;
                  intent = classify_intent (llm_chain E) text;
                  text_en = response_text_en intent;
                  w6 = (if source_lang \<noteq> ''en''
                        then emit (Translate text_en source_lang) w5 else w5)
              in case final_response E source_lang text_en of
                   Inl err \<Rightarrow> (Inl err, w6)
                 | Inr reply \<Rightarrow>
                     (let sid = send_whatsapp_message (client E) (whatsapp_number E)
                                  patient_phone reply;
                          w7 = emit (Send patient_phone reply sid) w6;
                          w8 = log_message w7 (patient_id patient) patient_phone
                                 ''coordinator'' reply
                                 (if source_lang \<noteq> ''en'' then Some text_en else None)
                                 (Some source_lang)
                      in (Inr \<lparr>status = ''processed'', intent = intent, response = reply\<rparr>,
                          w8))))"

subsection \<open>The closed vocabulary and observations on the history\<close>

text \<open>The labels that the classification prompt lists (lines 32 to 39).\<close>

definition intent_labels :: "string list" where
  "intent_labels =
     [''book_appointment'', ''reschedule_appointment'', ''cancel_appointment'',
      ''ask_question'', ''greeting'', ''affirmative'', ''negative'', ''unclear'']"

fun is_log_or_classify :: "event \<Rightarrow> bool" where
  "is_log_or_classify (LogAppend m) = True"
| "is_log_or_classify (Classify t) = True"
| "is_log_or_classify e = False"

fun is_translate :: "event \<Rightarrow> bool" where
  "is_translate (Translate t l) = True"
| "is_translate e = False"

text \<open>The calls that one turn adds to the history.\<close>

definition turn_events :: "world \<Rightarrow> world \<Rightarrow> event list" where
  "turn_events w w' = drop (length (trace w)) (trace w')"

subsection \<open>Concrete collaborators\<close>

text \<open>An empty database.\<close>

definition empty_world :: world where
  "empty_world = \<lparr>patients = [], messages = [], next_patient_id = 1, next_message_id = 1,
                    trace = []\<rparr>"

definition sid_client :: twilio_client where
  "sid_client from_number body to_number = Created ''mock_message_sid''"

definition failing_client :: twilio_client where
  "failing_client from_number body to_number = CreateRaises ''Unable to create record''"

text \<open>The collaborators of \<^verbatim>\<open>test_process_message_new_patient_english\<close>.\<close>

definition english_env :: env where
  "english_env =
     \<lparr>detect_language = (\<lambda>t. [''language'' \<mapsto> ''en'']),
      translator = (\<lambda>src dest t. Translated (Some ''Hello'')),
      llm_chain = Some (\<lambda>m. LlmReturns (PStr ''greeting'')),
      client = Some sid_client,
      whatsapp_number = ''whatsapp:+14155238886''\<rparr>"

text \<open>The collaborators of \<^verbatim>\<open>test_process_message_existing_patient_swahili\<close>.\<close>

definition swahili_translator :: translator where
  "swahili_translator src dest t =
     (if dest = ''en'' then Translated (Some ''I want to book an appointment'')
      else if dest = ''sw'' then Translated (Some ''Ninakusaidia na hilo.'')
      else Translated None)"

definition swahili_env :: env where
  "swahili_env =
     \<lparr>detect_language = (\<lambda>t. [''language'' \<mapsto> ''sw'']),
      translator = swahili_translator,
      llm_chain = Some (\<lambda>m. LlmReturns (PStr ''book_appointment'')),
      client = Some sid_client,
      whatsapp_number = ''whatsapp:+14155238886''\<rparr>"

text \<open>A database that already holds the patient of the second test.\<close>

definition swahili_world :: world where
  "swahili_world =
     \<lparr>patients = [\<lparr>patient_id = 1, patient_phone_number = ''+54321'', patient_name = None,
                    patient_language = Some ''sw''\<rparr>],
      messages = [], next_patient_id = 2, next_message_id = 1, trace = []\<rparr>"

text \<open>Swahili is detected, and every call of the translator raises with a message.\<close>

definition translator_down_env :: env where
  "translator_down_env =
     \<lparr>detect_language = (\<lambda>t. [''language'' \<mapsto> ''sw'']),
      translator = (\<lambda>src dest t. RaisesException ''Connection refused''),
      llm_chain = None,
      client = None,
      whatsapp_number = []\<rparr>"

text \<open>The chain answers with a word that is not one of the labels.\<close>

definition off_vocabulary_chain :: llm_chain where
  "off_vocabulary_chain m = LlmReturns (PStr '' Banana '')"

definition tidy_chain :: llm_chain where
  "tidy_chain m = LlmReturns (PStr '' Greeting '')"

text \<open>Detection reports an error next to a language, and every call of the translator
  raises an exception whose \<^verbatim>\<open>str\<close> is empty (as \<^verbatim>\<open>TimeoutError()\<close> is).\<close>

definition all_errors_env :: env where
  "all_errors_env =
     \<lparr>detect_language = (\<lambda>t. [''language'' \<mapsto> ''sw'', ''error'' \<mapsto> ''detection failed'']),
      translator = (\<lambda>src dest t. RaisesException []),
      llm_chain = None,
      client = None,
      whatsapp_number = []\<rparr>"

text \<open>The inbound translation works; the translation of the reply raises an exception
  whose \<^verbatim>\<open>str\<close> is empty.\<close>

definition reply_translation_fails_env :: env where
  "reply_translation_fails_env =
     \<lparr>detect_language = (\<lambda>t. [''language'' \<mapsto> ''sw'']),
      translator = (\<lambda>src dest t. if dest = ''en'' then Translated (Some ''hello'')
                                  else RaisesException []),
      llm_chain = None,
      client = Some sid_client,
      whatsapp_number = ''whatsapp:+14155238886''\<rparr>"

text \<open>Detection returns an error result without a language.\<close>

definition detection_error_env :: env where
  "detection_error_env =
     \<lparr>detect_language = (\<lambda>t. [''error'' \<mapsto> ''detection failed'']),
      translator = (\<lambda>src dest t. RaisesException ''Connection refused''),
      llm_chain = None,
      client = Some failing_client,
      whatsapp_number = ''whatsapp:+14155238886''\<rparr>"

text \<open>Swahili is detected without an error, and every call of the translator raises an
  exception whose \<^verbatim>\<open>str\<close> is empty.\<close>

definition inbound_translation_fails_env :: env where
  "inbound_translation_fails_env =
     \<lparr>detect_language = (\<lambda>t. [''language'' \<mapsto> ''sw'']),
      translator = (\<lambda>src dest t. RaisesException []),
      llm_chain = None,
      client = Some sid_client,
      whatsapp_number = ''whatsapp:+14155238886''\<rparr>"

section \<open>Properties\<close>

subsection \<open>What each step leaves unchanged\<close>

lemma emit_simps [simp]:
  "patients (emit e w) = patients w"
  "messages (emit e w) = messages w"
  "next_patient_id (emit e w) = next_patient_id w"
  "next_message_id (emit e w) = next_message_id w"
  "trace (emit e w) = trace w @ [e]"
  by (simp_all add: emit_def)

lemma log_message_simps [simp]:
  "patients (log_message w pid sid sender content tc lang) = patients w"
  "next_patient_id (log_message w pid sid sender content tc lang) = next_patient_id w"
  "next_message_id (log_message w pid sid sender content tc lang) = Suc (next_message_id w)"
  "messages (log_message w pid sid sender content tc lang) = messages w @
     [\<lparr>message_id = next_message_id w, message_patient_id = pid, message_session_id = sid,
       message_sender = sender, message_content = content, message_translated_content = tc,
       message_language = lang\<rparr>]"
  "trace (log_message w pid sid sender content tc lang) = trace w @
     [LogAppend \<lparr>message_id = next_message_id w, message_patient_id = pid,
       message_session_id = sid, message_sender = sender, message_content = content,
       message_translated_content = tc, message_language = lang\<rparr>]"
  by (simp_all add: log_message_def Let_def)

lemma get_or_create_patient_frame [simp]:
  "messages (snd (get_or_create_patient w phone lang)) = messages w"
  "next_message_id (snd (get_or_create_patient w phone lang)) = next_message_id w"
  "trace (snd (get_or_create_patient w phone lang)) = trace w"
  by (simp_all add: get_or_create_patient_def Let_def split: option.splits)

lemma get_or_create_patient_emit:
  "get_or_create_patient (emit e w) phone lang =
     (fst (get_or_create_patient w phone lang), emit e (snd (get_or_create_patient w phone lang)))"
  by (simp add: get_or_create_patient_def emit_def Let_def split: option.splits)

subsection \<open>The patient directory\<close>

lemma find_patient_append:
  "find_patient (ps @ [p]) phone =
     (case find_patient ps phone of
        None \<Rightarrow> if patient_phone_number p = phone then Some p else None
      | Some q \<Rightarrow> Some q)"
  by (induction ps) auto

lemma find_patient_set_language:
  "find_patient ps phone = Some p \<Longrightarrow>
   find_patient (set_language ps phone lang) phone = Some (p\<lparr>patient_language := Some lang\<rparr>)"
  by (induction ps) (auto split: if_splits)

lemma length_set_language: "length (set_language ps phone lang) = length ps"
  by (induction ps) auto

lemma find_patient_after:
  "find_patient (patients (snd (get_or_create_patient w phone lang))) phone
     = Some (fst (get_or_create_patient w phone lang))"
  by (auto simp: get_or_create_patient_def Let_def find_patient_append
        find_patient_set_language split: option.splits)

lemma language_after: "patient_language (fst (get_or_create_patient w phone lang)) = Some lang"
  by (auto simp: get_or_create_patient_def Let_def split: option.splits)

lemma existing_patient_after:
  assumes "find_patient (patients w) phone = Some p"
  shows "fst (get_or_create_patient w phone lang) = p\<lparr>patient_language := Some lang\<rparr>"
  using assms by (simp add: get_or_create_patient_def)

subsection \<open>The result dictionary of the translation\<close>

lemma translate_text_keys:
  "(translate_text tr x dest src ''error'' = None)
     = (translate_text tr x dest src ''translated_text'' \<noteq> None)"
  by (cases x) (auto simp: translate_text_def split: translator_outcome.splits option.splits)

lemma translated_text_nonempty:
  "translate_text tr x dest src ''translated_text'' = Some t \<Longrightarrow> t \<noteq> []"
  by (cases x)
     (auto simp: translate_text_def split: translator_outcome.splits option.splits if_splits)

text \<open>The only result with an \<^verbatim>\<open>error\<close> entry that counts as false comes from an
  exception whose text is empty.\<close>

lemma falsy_error_entry:
  assumes "translate_text tr (PStr s) dest src ''error'' = Some []"
  shows "tr src dest s = RaisesException []"
  using assms
  by (auto simp: translate_text_def split: translator_outcome.splits option.splits if_splits)

lemma response_text_en_nonempty: "response_text_en i \<noteq> []"
  by (simp add: response_text_en_def)

lemma final_response_fallback:
  assumes "truthy_get (translate_text (translator E) (PStr t) lang ''auto'') ''error''"
  shows "final_response E lang t = Inr t"
  using assms by (simp add: final_response_def)

lemma final_response_nonempty:
  assumes "final_response E lang t = Inr reply" and "t \<noteq> []"
  shows "reply \<noteq> []"
  using assms
  by (auto simp: final_response_def Let_def subscript_def truthy_get_def
        dest: translated_text_nonempty split: if_splits option.splits)

lemma final_response_raises:
  assumes "final_response E lang t = Inl err"
  shows "translator E ''auto'' lang t = RaisesException [] \<and> lang \<noteq> ''en''"
  using assms translate_text_keys [of "translator E" "PStr t" lang "''auto''"]
  by (auto simp: final_response_def Let_def subscript_def truthy_get_def
        intro: falsy_error_entry split: if_splits option.splits)

lemma message_for_processing_raises:
  assumes "message_for_processing E msg = Inl err"
  shows "translator E ''auto'' ''en'' msg = RaisesException []"
  using assms translate_text_keys [of "translator E" "PStr msg" "''en''" "''auto''"]
  by (auto simp: message_for_processing_def Let_def subscript_def truthy_get_def
        intro: falsy_error_entry split: if_splits option.splits)

lemma detection_error_keeps_text:
  assumes "truthy_get (detect_language E msg) ''error''"
  shows "message_for_processing E msg = Inr msg"
  using assms by (simp add: message_for_processing_def translates_inbound_def)

subsection \<open>A completed turn\<close>

lemma process_message_Inr:
  assumes "process_message E w msg phone = (Inr r, w')"
  shows "\<exists>text reply.
       message_for_processing E msg = Inr text
     \<and> final_response E (source_lang_of E msg)
           (response_text_en (classify_intent (llm_chain E) text)) = Inr reply
     \<and> r = \<lparr>status = ''processed'', intent = classify_intent (llm_chain E) text,
             response = reply\<rparr>
     \<and> patients w' = patients (snd (get_or_create_patient w phone (source_lang_of E msg)))
     \<and> messages w' = messages w @
         [\<lparr>message_id = next_message_id w,
           message_patient_id =
             patient_id (fst (get_or_create_patient w phone (source_lang_of E msg))),
           message_session_id = phone, message_sender = ''patient'', message_content = msg,
           message_translated_content =
             (if source_lang_of E msg \<noteq> ''en'' then Some text else None),
           message_language = Some (source_lang_of E msg)\<rparr>,
          \<lparr>message_id = Suc (next_message_id w),
           message_patient_id =
             patient_id (fst (get_or_create_patient w phone (source_lang_of E msg))),
           message_session_id = phone, message_sender = ''coordinator'',
           message_content = reply,
           message_translated_content =
             (if source_lang_of E msg \<noteq> ''en''
              then Some (response_text_en (classify_intent (llm_chain E) text)) else None),
           message_language = Some (source_lang_of E msg)\<rparr>]
     \<and> trace w' = trace w @ [Detect msg]
         @ (if translates_inbound E msg then [Translate msg ''en''] else [])
         @ [ResolvePatient phone,
            LogAppend \<lparr>message_id = next_message_id w,
              message_patient_id =
                patient_id (fst (get_or_create_patient w phone (source_lang_of E msg))),
              message_session_id = phone, message_sender = ''patient'',
              message_content = msg,
              message_translated_content =
                (if source_lang_of E msg \<noteq> ''en'' then Some text else None),
              message_language = Some (source_lang_of E msg)\<rparr>,
            Classify text]
         @ (if source_lang_of E msg \<noteq> ''en''
            then [Translate (response_text_en (classify_intent (llm_chain E) text))
                    (source_lang_of E msg)]
            else [])
         @ [Send phone reply
              (send_whatsapp_message (client E) (whatsapp_number E) phone reply),
            LogAppend \<lparr>message_id = Suc (next_message_id w),
              message_patient_id =
                patient_id (fst (get_or_create_patient w phone (source_lang_of E msg))),
              message_session_id = phone, message_sender = ''coordinator'',
              message_content = reply,
              message_translated_content =
                (if source_lang_of E msg \<noteq> ''en''
                 then Some (response_text_en (classify_intent (llm_chain E) text))
                 else None),
              message_language = Some (source_lang_of E msg)\<rparr>]"
  using assms
  by (auto simp: process_message_def Let_def get_or_create_patient_emit case_prod_beta
        split: sum.splits)

lemma process_message_patients:
  assumes "message_for_processing E msg = Inr text"
  shows "patients (snd (process_message E w msg phone))
           = patients (snd (get_or_create_patient w phone (source_lang_of E msg)))"
  using assms
  by (auto simp: process_message_def Let_def get_or_create_patient_emit case_prod_beta
        split: sum.splits)

text \<open>A turn is cut short only by an exception of the translator whose text is empty.\<close>

lemma process_message_completes:
  assumes "\<And>src dest t. translator E src dest t \<noteq> RaisesException []"
  shows "\<exists>r w'. process_message E w msg phone = (Inr r, w')"
proof -
  obtain processed where t: "message_for_processing E msg = Inr processed"
    using assms message_for_processing_raises [of E msg]
    by (cases "message_for_processing E msg") auto
  obtain reply where
    "final_response E (source_lang_of E msg)
       (response_text_en (classify_intent (llm_chain E) processed)) = Inr reply"
    using assms final_response_raises
    by (cases "final_response E (source_lang_of E msg)
                 (response_text_en (classify_intent (llm_chain E) processed))") blast+
  with t show ?thesis
    by (simp add: process_message_def Let_def case_prod_beta)
qed

text \<open>A turn that gets as far as looking the patient up leaves the detected language in
  the row of the phone number.\<close>

lemma language_after_resolution:
  assumes "message_for_processing E msg = Inr processed"
  shows "\<exists>p'. find_patient (patients (snd (process_message E w msg phone))) phone = Some p'
     \<and> patient_language p' = Some (source_lang_of E msg)
     \<and> (\<forall>p. find_patient (patients w) phone = Some p \<longrightarrow>
            p' = p\<lparr>patient_language := Some (source_lang_of E msg)\<rparr>)"
  using process_message_patients [OF assms, of w phone]
        find_patient_after [of w phone "source_lang_of E msg"]
        language_after [of w phone "source_lang_of E msg"]
  by (auto simp: existing_patient_after)

section \<open>The claims\<close>

text \<open>
  C1 (as amended). In a turn that completes, \<^verbatim>\<open>translated_content\<close> is recorded exactly
  when the detected language is not \<^verbatim>\<open>en\<close>, whether or not a translation succeeded: the
  inbound message then holds the text that was classified, and the outbound message holds
  the English reply.
\<close>

theorem translated_content_follows_language:
  assumes "process_message E w msg phone = (Inr r, w')"
  shows "\<exists>m_in m_out processed.
       messages w' = messages w @ [m_in, m_out]
     \<and> message_content m_in = msg \<and> message_content m_out = response r
     \<and> message_for_processing E msg = Inr processed
     \<and> message_translated_content m_in
          = (if source_lang_of E msg \<noteq> ''en'' then Some processed else None)
     \<and> message_translated_content m_out
          = (if source_lang_of E msg \<noteq> ''en'' then Some (response_text_en (intent r))
             else None)"
  using process_message_Inr [OF assms] by auto

theorem translated_content_follows_language_witness:
  "fst (process_message english_env empty_world ''Hello'' ''+12345'')
      = Inr \<lparr>status = ''processed'', intent = ''greeting'',
              response = response_text_en ''greeting''\<rparr>
   \<and> (\<exists>m_in m_out.
         messages (snd (process_message english_env empty_world ''Hello'' ''+12345''))
           = [m_in, m_out]
       \<and> message_translated_content m_in = None
       \<and> message_translated_content m_out = None)"
proof -
  have r: "fst (process_message english_env empty_world ''Hello'' ''+12345'')
      = Inr \<lparr>status = ''processed'', intent = ''greeting'',
              response = response_text_en ''greeting''\<rparr>"
    by code_simp
  then have h: "process_message english_env empty_world ''Hello'' ''+12345''
      = (Inr \<lparr>status = ''processed'', intent = ''greeting'',
               response = response_text_en ''greeting''\<rparr>,
         snd (process_message english_env empty_world ''Hello'' ''+12345''))"
    by (simp add: prod_eq_iff)
  have l: "source_lang_of english_env ''Hello'' = ''en''"
    by code_simp
  have m: "messages empty_world = []"
    by (simp add: empty_world_def)
  show ?thesis
    using translated_content_follows_language [OF h] r l m by auto
qed

text \<open>
  C1 as stated fails. Swahili is detected and the translator is down: the turn completes,
  and both records hold a \<^verbatim>\<open>translated_content\<close> equal to their \<^verbatim>\<open>content\<close>.
\<close>

theorem translated_content_counterexample:
  "messages (snd (process_message translator_down_env empty_world ''Habari'' ''+100''))
     = [\<lparr>message_id = 1, message_patient_id = 1, message_session_id = ''+100'',
         message_sender = ''patient'', message_content = ''Habari'',
         message_translated_content = Some ''Habari'', message_language = Some ''sw''\<rparr>,
        \<lparr>message_id = 2, message_patient_id = 1, message_session_id = ''+100'',
         message_sender = ''coordinator'',
         message_content = response_text_en ''greeting'',
         message_translated_content = Some (response_text_en ''greeting''),
         message_language = Some ''sw''\<rparr>]
   \<and> fst (process_message translator_down_env empty_world ''Habari'' ''+100'')
     = Inr \<lparr>status = ''processed'', intent = ''greeting'',
             response = response_text_en ''greeting''\<rparr>"
  by code_simp

text \<open>
  C2 (as amended). \<^verbatim>\<open>classify_intent\<close> never raises. An exception of the chain and an
  answer that is not a string both give \<^verbatim>\<open>unclear\<close>; without a chain the keyword
  fallback gives \<^verbatim>\<open>book_appointment\<close>, \<^verbatim>\<open>greeting\<close> or \<^verbatim>\<open>unclear\<close>; an answer that
  is a string is returned stripped and in lower case, whatever it is, so the label belongs
  to the closed set exactly when that normalised answer does.
\<close>

theorem classify_intent_outcomes:
  "classify_intent None msg \<in> {''book_appointment'', ''greeting'', ''unclear''}
   \<and> classify_intent (Some (run(msg := LlmRaises e))) msg = ''unclear''
   \<and> classify_intent (Some (run(msg := LlmReturns PNone))) msg = ''unclear''
   \<and> classify_intent (Some (run(msg := LlmReturns (PInt n)))) msg = ''unclear''
   \<and> classify_intent (Some (run(msg := LlmReturns (PBool b)))) msg = ''unclear''
   \<and> classify_intent (Some (run(msg := LlmReturns (PStr s)))) msg = lower (strip s)
   \<and> (classify_intent (Some (run(msg := LlmReturns (PStr s)))) msg \<in> set intent_labels)
        = (lower (strip s) \<in> set intent_labels)"
  by (simp add: classify_intent_def)

theorem classify_intent_outcomes_witness:
  "classify_intent None ''I want to BOOK'' \<in> {''book_appointment'', ''greeting'', ''unclear''}
   \<and> classify_intent (Some (tidy_chain(''hi'' := LlmRaises ''overloaded''))) ''hi'' = ''unclear''
   \<and> classify_intent (Some (tidy_chain(''hi'' := LlmReturns (PStr '' Greeting '')))) ''hi''
        = ''greeting''"
proof -
  have "lower (strip '' Greeting '') = ''greeting''"
    by code_simp
  then show ?thesis
    using classify_intent_outcomes [of "''I want to BOOK''"]
          classify_intent_outcomes [of "''hi''" tidy_chain "''overloaded''" 0 True "'' Greeting ''"]
    by simp
qed

text \<open>
  C2 as stated fails: the chain may answer with any word, and the word comes back as the
  label.
\<close>

theorem classify_intent_counterexample:
  "classify_intent (Some off_vocabulary_chain) ''hello'' = ''banana''
   \<and> classify_intent (Some off_vocabulary_chain) ''hello'' \<notin> set intent_labels"
  by code_simp

text \<open>
  C3. Detection reports an error and every call of the translator raises. The inbound text
  is classified as it came, but the exception of the translator has an empty text, so the
  result of \<^verbatim>\<open>translate_text\<close> for the reply is \<^verbatim>\<open>{"error": ""}\<close>; the test of line 168
  takes it for a success and line 169 raises \<^verbatim>\<open>KeyError\<close>. The turn returns nothing.
\<close>

theorem fallback_safety_fails:
  "message_for_processing all_errors_env ''hello'' = Inr ''hello''
   \<and> fst (process_message all_errors_env empty_world ''hello'' ''+100'')
       = Inl (KeyError ''translated_text'')"
  by code_simp

text \<open>
  C4. A turn that completes appends exactly two messages, the inbound one before the
  outbound one; both carry the phone number as session id and the detected language of the
  turn; and among the calls of the turn, the inbound append comes first, then the
  classification, then the outbound append.
\<close>

theorem transcript_pairing:
  assumes "process_message E w msg phone = (Inr r, w')"
  shows "\<exists>m_in m_out processed.
       messages w' = messages w @ [m_in, m_out]
     \<and> message_sender m_in = ''patient'' \<and> message_content m_in = msg
     \<and> message_sender m_out = ''coordinator'' \<and> message_content m_out = response r
     \<and> message_session_id m_in = phone \<and> message_session_id m_out = phone
     \<and> message_language m_in = Some (source_lang_of E msg)
     \<and> message_language m_out = Some (source_lang_of E msg)
     \<and> message_for_processing E msg = Inr processed
     \<and> intent r = classify_intent (llm_chain E) processed
     \<and> filter is_log_or_classify (turn_events w w')
          = [LogAppend m_in, Classify processed, LogAppend m_out]"
  using process_message_Inr [OF assms] by (auto simp: turn_events_def)

theorem transcript_pairing_witness:
  "fst (process_message swahili_env swahili_world ''Nataka kuweka miadi'' ''+54321'')
      = Inr \<lparr>status = ''processed'', intent = ''book_appointment'',
              response = ''Ninakusaidia na hilo.''\<rparr>
   \<and> (\<exists>m_in m_out.
         messages (snd (process_message swahili_env swahili_world
                          ''Nataka kuweka miadi'' ''+54321'')) = [m_in, m_out]
       \<and> message_content m_in = ''Nataka kuweka miadi''
       \<and> message_content m_out = ''Ninakusaidia na hilo.''
       \<and> message_session_id m_in = ''+54321'' \<and> message_session_id m_out = ''+54321''
       \<and> message_language m_in = Some ''sw'' \<and> message_language m_out = Some ''sw''
       \<and> filter is_log_or_classify
            (trace (snd (process_message swahili_env swahili_world
                           ''Nataka kuweka miadi'' ''+54321'')))
          = [LogAppend m_in, Classify ''I want to book an appointment'', LogAppend m_out])"
proof -
  have r: "fst (process_message swahili_env swahili_world ''Nataka kuweka miadi'' ''+54321'')
      = Inr \<lparr>status = ''processed'', intent = ''book_appointment'',
              response = ''Ninakusaidia na hilo.''\<rparr>"
    by code_simp
  then have h: "process_message swahili_env swahili_world ''Nataka kuweka miadi'' ''+54321''
      = (Inr \<lparr>status = ''processed'', intent = ''book_appointment'',
               response = ''Ninakusaidia na hilo.''\<rparr>,
         snd (process_message swahili_env swahili_world ''Nataka kuweka miadi'' ''+54321''))"
    by (simp add: prod_eq_iff)
  have l: "source_lang_of swahili_env ''Nataka kuweka miadi'' = ''sw''"
    by code_simp
  have p: "message_for_processing swahili_env ''Nataka kuweka miadi''
             = Inr ''I want to book an appointment''"
    by code_simp
  have m: "messages swahili_world = []" and t: "trace swahili_world = []"
    by (simp_all add: swahili_world_def)
  show ?thesis
    using transcript_pairing [OF h] r l p m t
    by (auto simp: turn_events_def)
qed

text \<open>
  C5. Swahili is detected, the inbound translation works, and the translation of the reply
  raises an exception with an empty text: line 169 raises \<^verbatim>\<open>KeyError\<close>, nothing is
  returned, nothing is sent and no outbound message is logged.
\<close>

theorem reply_fallback_fails:
  "fst (process_message reply_translation_fails_env empty_world ''habari'' ''+100'')
       = Inl (KeyError ''translated_text'')
   \<and> trace (snd (process_message reply_translation_fails_env empty_world ''habari'' ''+100''))
       = [Detect ''habari'', Translate ''habari'' ''en'', ResolvePatient ''+100'',
          LogAppend \<lparr>message_id = 1, message_patient_id = 1, message_session_id = ''+100'',
            message_sender = ''patient'', message_content = ''habari'',
            message_translated_content = Some ''hello'', message_language = Some ''sw''\<rparr>,
          Classify ''hello'',
          Translate (response_text_en ''greeting'') ''sw'']"
  by code_simp

text \<open>
  C6. A patient is created by a first turn in which \<^verbatim>\<open>en\<close> is detected. In the next
  turn \<^verbatim>\<open>sw\<close> is detected, and the translator raises an exception with an empty text:
  \<^verbatim>\<open>translate_text\<close> returns \<^verbatim>\<open>{"error": ""}\<close>, the test of line 135 takes it for a
  success, and line 136 raises \<^verbatim>\<open>KeyError\<close> before \<^verbatim>\<open>get_or_create_patient\<close> is
  called at line 139. The stored language is still \<^verbatim>\<open>en\<close> after that turn.
\<close>

theorem language_drift_fails:
  "find_patient
     (patients (snd (process_message english_env empty_world ''Hello'' ''+12345''))) ''+12345''
     = Some \<lparr>patient_id = 1, patient_phone_number = ''+12345'', patient_name = None,
              patient_language = Some ''en''\<rparr>
   \<and> source_lang_of inbound_translation_fails_env ''Habari'' = ''sw''
   \<and> fst (process_message inbound_translation_fails_env
             (snd (process_message english_env empty_world ''Hello'' ''+12345''))
             ''Habari'' ''+12345'')
     = Inl (KeyError ''translated_text'')
   \<and> find_patient
       (patients (snd (process_message inbound_translation_fails_env
          (snd (process_message english_env empty_world ''Hello'' ''+12345''))
          ''Habari'' ''+12345''))) ''+12345''
     = Some \<lparr>patient_id = 1, patient_phone_number = ''+12345'', patient_name = None,
              patient_language = Some ''en''\<rparr>"
  by code_simp

text \<open>
  C7. Calling \<^verbatim>\<open>get_or_create_patient\<close> twice with the same phone number and the same
  language returns the same patient, with the same id, both times; the second call leaves
  the database as the first one left it, and the first call adds one row exactly when the
  number was not there.
\<close>

theorem get_or_create_patient_idempotent:
  "(let (p1, w1) = get_or_create_patient w phone lang;
        (p2, w2) = get_or_create_patient w1 phone lang
    in patient_id p2 = patient_id p1 \<and> p2 = p1 \<and> w2 = w1
       \<and> length (patients w1) =
           (if find_patient (patients w) phone = None then Suc (length (patients w))
            else length (patients w)))"
proof -
  obtain p1 w1 where g: "get_or_create_patient w phone lang = (p1, w1)"
    by (cases "get_or_create_patient w phone lang")
  have "find_patient (patients w1) phone = Some p1"
    using find_patient_after [of w phone lang] g by simp
  moreover have "patient_language p1 = Some lang"
    using language_after [of w phone lang] g by simp
  ultimately have s: "get_or_create_patient w1 phone lang = (p1, w1)"
    by (simp add: get_or_create_patient_def)
  have "length (patients w1) =
          (if find_patient (patients w) phone = None then Suc (length (patients w))
           else length (patients w))"
    using g
    by (auto simp: get_or_create_patient_def Let_def length_set_language
          split: option.splits if_splits)
  with g s show ?thesis by simp
qed

theorem get_or_create_patient_idempotent_witness:
  "fst (get_or_create_patient empty_world ''+100'' ''sw'')
     = \<lparr>patient_id = 1, patient_phone_number = ''+100'', patient_name = None,
        patient_language = Some ''sw''\<rparr>
   \<and> fst (get_or_create_patient (snd (get_or_create_patient empty_world ''+100'' ''sw''))
           ''+100'' ''sw'')
     = fst (get_or_create_patient empty_world ''+100'' ''sw'')
   \<and> length (patients (snd (get_or_create_patient
         (snd (get_or_create_patient empty_world ''+100'' ''sw'')) ''+100'' ''sw''))) = 1"
proof -
  have a: "fst (get_or_create_patient empty_world ''+100'' ''sw'')
      = \<lparr>patient_id = 1, patient_phone_number = ''+100'', patient_name = None,
         patient_language = Some ''sw''\<rparr>"
    by code_simp
  have b: "find_patient (patients empty_world) ''+100'' = None"
    by (simp add: empty_world_def)
  have c: "length (patients empty_world) = 0"
    by (simp add: empty_world_def)
  show ?thesis
    using get_or_create_patient_idempotent [of empty_world "''+100''" "''sw''"] a b c
    by (simp add: case_prod_beta)
qed



text \<open>
  C9. \<^verbatim>\<open>translate_text\<close> is total: whatever the input and whatever the translator
  does (return a text, return nothing, raise), the result is a dictionary that holds
  either an \<^verbatim>\<open>error\<close> entry or a \<^verbatim>\<open>translated_text\<close> entry; for an empty
  string and for an object that is not a string it is the dictionary with the error entry
  of line 25.
\<close>

theorem translate_text_total:
  "(translate_text tr x dest src ''error'' \<noteq> None
      \<or> translate_text tr x dest src ''translated_text'' \<noteq> None)
   \<and> (x = PStr [] \<or> \<not> isinstance_str x \<longrightarrow>
        translate_text tr x dest src = [''error'' \<mapsto> ''Invalid input text for translation.''])"
  by (cases x) (auto simp: translate_text_def split: translator_outcome.splits option.splits)

theorem translate_text_total_witness:
  "(PNone = PStr [] \<or> \<not> isinstance_str PNone)
   \<and> translate_text swahili_translator PNone ''en'' ''auto'' ''error''
        = Some ''Invalid input text for translation.''
   \<and> translate_text swahili_translator (PStr []) ''en'' ''auto'' ''error''
        = Some ''Invalid input text for translation.''"
  using translate_text_total [of swahili_translator PNone "''en''" "''auto''"]
        translate_text_total [of swahili_translator "PStr []" "''en''" "''auto''"]
  by simp

text \<open>
  C10. When the result of the detection has no \<^verbatim>\<open>language\<close> key, the turn runs with
  \<^verbatim>\<open>en\<close>: it completes, the translator is not called, both messages are tagged \<^verbatim>\<open>en\<close>
  and carry no \<^verbatim>\<open>translated_content\<close>, the original text is classified, and the row of
  the phone number holds \<^verbatim>\<open>en\<close> afterwards, also when it held another language before.
\<close>

theorem missing_language_defaults_to_en:
  assumes "detect_language E msg ''language'' = None"
  shows "source_lang_of E msg = ''en''
     \<and> (\<exists>r w' m_in m_out p'.
           process_message E w msg phone = (Inr r, w')
         \<and> intent r = classify_intent (llm_chain E) msg
         \<and> response r = response_text_en (intent r)
         \<and> filter is_translate (turn_events w w') = []
         \<and> messages w' = messages w @ [m_in, m_out]
         \<and> message_language m_in = Some ''en'' \<and> message_language m_out = Some ''en''
         \<and> message_translated_content m_in = None
         \<and> message_translated_content m_out = None
         \<and> find_patient (patients w') phone = Some p'
         \<and> patient_language p' = Some ''en''
         \<and> (\<forall>p. find_patient (patients w) phone = Some p \<longrightarrow>
                p' = p\<lparr>patient_language := Some ''en''\<rparr>))"
proof -
  have l: "source_lang_of E msg = ''en''"
    using assms by (simp add: source_lang_of_def dict_get_def)
  then have m: "message_for_processing E msg = Inr msg"
    and t: "\<not> translates_inbound E msg"
    and f: "\<And>t. final_response E ''en'' t = Inr t"
    by (simp_all add: message_for_processing_def translates_inbound_def final_response_def)
  obtain r w' where p: "process_message E w msg phone = (Inr r, w')"
    using l m f by (simp add: process_message_def Let_def case_prod_beta)
  have "patients w' = patients (snd (get_or_create_patient w phone ''en''))"
    using process_message_patients [OF m, of w phone] p l by simp
  then have "find_patient (patients w') phone = Some (fst (get_or_create_patient w phone ''en''))"
    by (simp add: find_patient_after)
  then show ?thesis
    using process_message_Inr [OF p] p l m t f language_after [of w phone "''en''"]
    by (auto simp: turn_events_def existing_patient_after)
qed

theorem missing_language_defaults_to_en_witness:
  "detect_language detection_error_env ''habari'' ''language'' = None
   \<and> find_patient (patients swahili_world) ''+54321''
       = Some \<lparr>patient_id = 1, patient_phone_number = ''+54321'', patient_name = None,
                patient_language = Some ''sw''\<rparr>
   \<and> (\<exists>r w' m_in m_out.
         process_message detection_error_env swahili_world ''habari'' ''+54321'' = (Inr r, w')
       \<and> messages w' = [m_in, m_out]
       \<and> message_language m_in = Some ''en'' \<and> message_language m_out = Some ''en''
       \<and> find_patient (patients w') ''+54321''
           = Some \<lparr>patient_id = 1, patient_phone_number = ''+54321'', patient_name = None,
                    patient_language = Some ''en''\<rparr>)"
proof -
  have h: "detect_language detection_error_env ''habari'' ''language'' = None"
    by (simp add: detection_error_env_def)
  have p: "find_patient (patients swahili_world) ''+54321''
       = Some \<lparr>patient_id = 1, patient_phone_number = ''+54321'', patient_name = None,
                patient_language = Some ''sw''\<rparr>"
    by (simp add: swahili_world_def)
  have m: "messages swahili_world = []"
    by (simp add: swahili_world_def)
  show ?thesis
    using missing_language_defaults_to_en [OF h, of swahili_world "''+54321''"] h p m
    by auto
qed

end
